theory Spec2Isabelle
  imports Complex_Main
begin

section \<open>The clock component: data model\<close>

text \<open>
  The component reads a JavaScript \<open>Date\<close> through four getters only. A \<open>Date\<close> is
  modelled by the values those getters return, in local time. The getters return
  non-negative integers, so the fields are natural numbers; \<open>valid_time\<close> states the
  ranges the platform guarantees.
\<close>

record Date =
  getHours :: nat
  getMinutes :: nat
  getSeconds :: nat
  getMilliseconds :: nat

definition valid_time :: "Date \<Rightarrow> bool" where
  "valid_time d \<longleftrightarrow>
     getHours d < 24 \<and> getMinutes d < 60 \<and> getSeconds d < 60 \<and> getMilliseconds d < 1000"

text \<open>
  The object returned by \<open>getAngles\<close>. JavaScript numbers are IEEE doubles; the
  model computes with exact reals, so rounding is idealised away.
\<close>

record HandAngles =
  secondsAngle :: real
  minutesAngle :: real
  hoursAngle :: real

section \<open>The angle calculator\<close>

definition getAngles :: "Date \<Rightarrow> HandAngles" where
  "getAngles date =
     (let ms = real (getMilliseconds date);
          seconds = real (getSeconds date) + ms / 1000;
          minutes = real (getMinutes date) + seconds / 60;
          hours = real (getHours date mod 12) + minutes / 60
      in \<lparr>secondsAngle = seconds * 6,
          minutesAngle = minutes * 6,
          hoursAngle = hours * 30\<rparr>)"

section \<open>The view\<close>

text \<open>
  \<open>toLocaleTimeString\<close> belongs to the platform and depends on the user's locale, so
  the view takes it as a parameter.
\<close>

definition formatDigital :: "(Date \<Rightarrow> string) \<Rightarrow> Date \<Rightarrow> string" where
  "formatDigital toLocaleTimeString d = toLocaleTimeString d"

text \<open>
  The minute ring does not read the component's state: it calls \<open>new Date()\<close> again,
  up to twice for each of second, minute and hour (once in the test of the conditional,
  once in its else branch). Each call is a reading of the wall clock of its own, so the
  model takes the six readings as six arguments, in source order.
\<close>

definition currentSecond :: "Date \<Rightarrow> Date \<Rightarrow> nat" where
  "currentSecond d1 d2 = (if getSeconds d1 = 0 then 60 else getSeconds d2)"

definition currentMinute :: "Date \<Rightarrow> Date \<Rightarrow> nat" where
  "currentMinute d3 d4 = (if getMinutes d3 = 0 then 60 else getMinutes d4)"

definition currentHour :: "Date \<Rightarrow> Date \<Rightarrow> nat" where
  "currentHour d5 d6 = (if getHours d5 mod 12 = 0 then 12 else getHours d6 mod 12)"

definition classNames :: "nat \<Rightarrow> nat \<Rightarrow> nat \<Rightarrow> nat \<Rightarrow> string" where
  "classNames cs cm ch i =
     (let isActive = (i = cs);
          isActiveMinute = (i = cm);
          isActiveHour = (i = ch)
      in if isActive then ''svg-minute active-second''
         else if isActiveMinute then ''svg-minute active-minute''
         else if isActiveHour then ''svg-minute active-hour''
         else ''svg-minute'')"

definition minutes :: "Date \<Rightarrow> Date \<Rightarrow> Date \<Rightarrow> Date \<Rightarrow> Date \<Rightarrow> Date \<Rightarrow> (nat \<times> string) list" where
  "minutes d1 d2 d3 d4 d5 d6 =
     (let cs = currentSecond d1 d2;
          cm = currentMinute d3 d4;
          ch = currentHour d5 d6
      in map (\<lambda>idx. let i = idx + 1 in (i, classNames cs cm ch i)) [0..<60])"

definition hours :: "nat list" where
  "hours = map (\<lambda>i. if i = 0 then 12 else i) [0..<12]"

text \<open>
  What a render exposes: the label of the clock's root element, the three hand
  rotations, the minute ring (label text and class name of each entry), the hour
  numerals and the digital readout. The coordinates of the labels depend on the label
  index only and are left out.
\<close>

record view =
  aria_label :: string
  hand_angles :: HandAngles
  minute_labels :: "(nat \<times> string) list"
  hour_labels :: "nat list"
  digital :: string

definition App_view ::
  "(Date \<Rightarrow> string) \<Rightarrow> Date \<Rightarrow> Date \<Rightarrow> Date \<Rightarrow> Date \<Rightarrow> Date \<Rightarrow> Date \<Rightarrow> Date \<Rightarrow> view" where
  "App_view toLocaleTimeString now d1 d2 d3 d4 d5 d6 =
     (let angles = getAngles now
      in \<lparr>aria_label = ''Analog clock showing '' @ formatDigital toLocaleTimeString now,
          hand_angles = angles,
          minute_labels = minutes d1 d2 d3 d4 d5 d6,
          hour_labels = hours,
          digital = formatDigital toLocaleTimeString now\<rparr>)"

text \<open>
  One possible \<open>toLocaleTimeString\<close>, the 24-hour format \<open>HH:MM:SS\<close>, to evaluate the
  view on concrete input.
\<close>

definition two_digits :: "nat \<Rightarrow> string" where
  "two_digits n = [''0123456789'' ! (n div 10 mod 10), ''0123456789'' ! (n mod 10)]"

definition time_24h :: "Date \<Rightarrow> string" where
  "time_24h d =
     two_digits (getHours d) @ '':'' @ two_digits (getMinutes d) @ '':'' @ two_digits (getSeconds d)"

section \<open>The event loop: ticker and frame refresher\<close>

text \<open>
  The component lives on a single-threaded event loop. Its state is the \<open>now\<close> cell of
  \<open>useState\<close>, the two refs, the \<open>running\<close> flag of the second effect's closure, and
  on the platform's side the pending timers, the pending animation-frame requests, the
  handle counters and the system clock in milliseconds (what \<open>Date.now()\<close> returns).
  A pending timer records when it was armed and with which delay.
\<close>

record timer =
  tid :: nat
  armedAt :: nat
  delay :: nat

record app =
  now :: Date
  tickRef :: "nat option"
  rafRef :: "nat option"
  running :: bool
  timeouts :: "timer list"
  frames :: "nat list"
  nextTimeoutId :: nat
  nextFrameId :: nat
  clock :: nat

text \<open>
  The platform functions. Handles are positive integers, as the HTML standard requires,
  so a stored handle is truthy; clearing or cancelling an unknown handle does nothing.
\<close>

definition setTimeout :: "nat \<Rightarrow> app \<Rightarrow> nat \<times> app" where
  "setTimeout ms s =
     (nextTimeoutId s,
      s\<lparr>timeouts := timeouts s @ [\<lparr>tid = nextTimeoutId s, armedAt = clock s, delay = ms\<rparr>],
        nextTimeoutId := nextTimeoutId s + 1\<rparr>)"

definition clearTimeout :: "nat \<Rightarrow> app \<Rightarrow> app" where
  "clearTimeout h s = s\<lparr>timeouts := filter (\<lambda>t. tid t \<noteq> h) (timeouts s)\<rparr>"

definition requestAnimationFrame :: "app \<Rightarrow> nat \<times> app" where
  "requestAnimationFrame s =
     (nextFrameId s,
      s\<lparr>frames := frames s @ [nextFrameId s], nextFrameId := nextFrameId s + 1\<rparr>)"

definition cancelAnimationFrame :: "nat \<Rightarrow> app \<Rightarrow> app" where
  "cancelAnimationFrame h s = s\<lparr>frames := removeAll h (frames s)\<rparr>"

text \<open>
  \<open>if (ref.current) f(ref.current)\<close>: a ref holds \<open>null\<close> or a handle, and the handle
  \<open>0\<close> would be falsy.
\<close>

definition if_current :: "nat option \<Rightarrow> (nat \<Rightarrow> app \<Rightarrow> app) \<Rightarrow> app \<Rightarrow> app" where
  "if_current r f s = (case r of None \<Rightarrow> s | Some h \<Rightarrow> if h \<noteq> 0 then f h s else s)"

text \<open>
  The ticker's callback. \<open>d\<close> is what \<open>new Date()\<close> returns in this run; \<open>Date.now()\<close>
  reads the clock.
\<close>

definition runTick :: "Date \<Rightarrow> app \<Rightarrow> app" where
  "runTick d s =
     (let s1 = s\<lparr>now := d\<rparr>;
          ms = clock s1 mod 1000;
          (h, s2) = setTimeout (1000 - ms) s1
      in s2\<lparr>tickRef := Some h\<rparr>)"

text \<open>The cleanup of the first effect.\<close>

definition tick_cleanup :: "app \<Rightarrow> app" where
  "tick_cleanup s =
     (let s1 = if_current (tickRef s) clearTimeout s
      in if_current (rafRef s1) cancelAnimationFrame s1)"

text \<open>The second effect: its callback \<open>loop\<close>, its body and its cleanup.\<close>

definition loop :: "app \<Rightarrow> app" where
  "loop s =
     (if \<not> running s then s
      else (let (h, s1) = requestAnimationFrame s in s1\<lparr>rafRef := Some h\<rparr>))"

definition raf_effect :: "app \<Rightarrow> app" where
  "raf_effect s =
     (let s1 = s\<lparr>running := True\<rparr>;
          (h, s2) = requestAnimationFrame s1
      in s2\<lparr>rafRef := Some h\<rparr>)"

definition raf_cleanup :: "app \<Rightarrow> app" where
  "raf_cleanup s =
     (let s1 = s\<lparr>running := False\<rparr>
      in if_current (rafRef s1) cancelAnimationFrame s1)"

text \<open>
  Mounting: \<open>useState\<close> stores the first reading \<open>d0\<close>, the refs are \<open>null\<close>; then the
  effects run in source order, the first one calling \<open>runTick\<close> at once.
\<close>

definition initial :: "Date \<Rightarrow> nat \<Rightarrow> app" where
  "initial d0 t0 =
     \<lparr>now = d0, tickRef = None, rafRef = None, running = False, timeouts = [], frames = [],
      nextTimeoutId = 1, nextFrameId = 1, clock = t0\<rparr>"

definition mount :: "Date \<Rightarrow> Date \<Rightarrow> nat \<Rightarrow> app" where
  "mount d0 d1 t0 = raf_effect (runTick d1 (initial d0 t0))"

text \<open>
  What can happen after mounting: time passes, the platform runs the callback of a
  pending timer, it runs a pending animation-frame callback, or React unmounts the view
  and runs both cleanups in source order. A timer or frame event whose handle is not
  pending does nothing. The platform times its timers by a clock of its own and the
  code checks nothing when its callback runs, so the callback of a pending timer may
  run at any reading of \<open>Date.now()\<close>, after the requested delay or before it.
\<close>

datatype event = Elapse nat | Timeout nat Date | AnimationFrame nat | Unmount

definition pending :: "nat \<Rightarrow> app \<Rightarrow> bool" where
  "pending h s =
     (case find (\<lambda>t. tid t = h) (timeouts s) of
        None \<Rightarrow> False
      | Some t \<Rightarrow> True)"

fun step :: "event \<Rightarrow> app \<Rightarrow> app" where
  "step (Elapse dt) s = s\<lparr>clock := clock s + dt\<rparr>"
| "step (Timeout h d) s =
     (if pending h s then runTick d (s\<lparr>timeouts := filter (\<lambda>t. tid t \<noteq> h) (timeouts s)\<rparr>) else s)"
| "step (AnimationFrame h) s =
     (if h \<in> set (frames s) then loop (s\<lparr>frames := removeAll h (frames s)\<rparr>) else s)"
| "step Unmount s = raf_cleanup (tick_cleanup s)"

fun run :: "event list \<Rightarrow> app \<Rightarrow> app" where
  "run [] s = s"
| "run (e # es) s = run es (step e s)"

text \<open>
  The ticker fires when a timer event runs \<open>runTick\<close>; \<open>firing_times\<close> lists the clock
  values at which that happens along a run.
\<close>

fun ticker_fires :: "event \<Rightarrow> app \<Rightarrow> bool" where
  "ticker_fires (Timeout h d) s = pending h s"
| "ticker_fires e s = False"

fun firing_times :: "event list \<Rightarrow> app \<Rightarrow> nat list" where
  "firing_times [] s = []"
| "firing_times (e # es) s =
     (if ticker_fires e s then clock s # firing_times es (step e s)
      else firing_times es (step e s))"

text \<open>
  How late the platform delivers a timer: the reading of \<open>Date.now()\<close> when the callback
  runs, minus the reading when the timer was armed plus the requested delay. It is
  negative when the callback runs early. \<open>firing_lateness\<close> lists it for the firings of
  a run.
\<close>

fun lateness :: "event \<Rightarrow> app \<Rightarrow> int option" where
  "lateness (Timeout h d) s =
     (case find (\<lambda>t. tid t = h) (timeouts s) of
        None \<Rightarrow> None
      | Some t \<Rightarrow> Some (int (clock s) - int (armedAt t + delay t)))"
| "lateness e s = None"

fun firing_lateness :: "event list \<Rightarrow> app \<Rightarrow> int list" where
  "firing_lateness [] s = []"
| "firing_lateness (e # es) s =
     (case lateness e s of
        None \<Rightarrow> firing_lateness es (step e s)
      | Some l \<Rightarrow> l # firing_lateness es (step e s))"

text \<open>
  The first second boundary strictly after \<open>t\<close>, and the invariant of the ticker: at
  most one timer is pending, \<open>tickRef\<close> holds its handle, and it was armed at the latest
  firing \<open>prev\<close> with the delay that leads to the second boundary after \<open>prev\<close>. A list
  of firing times and a list of latenesses match (\<open>gaps\<close>) when each firing comes at the
  boundary following its predecessor plus its lateness.
\<close>

definition next_boundary :: "nat \<Rightarrow> nat" where
  "next_boundary t = t + (1000 - t mod 1000)"

definition ticker_inv :: "nat \<Rightarrow> app \<Rightarrow> bool" where
  "ticker_inv prev s \<longleftrightarrow>
     0 < nextTimeoutId s \<and>
     (case timeouts s of
        [] \<Rightarrow> True
      | [t] \<Rightarrow> tickRef s = Some (tid t) \<and> 0 < tid t \<and> armedAt t = prev
               \<and> delay t = 1000 - prev mod 1000
      | _ \<Rightarrow> False)"

fun gaps :: "nat list \<Rightarrow> int list \<Rightarrow> bool" where
  "gaps (a # b # ts) (l # ls) = (int b = int (next_boundary a) + l \<and> gaps (b # ts) ls)"
| "gaps [a] [] = True"
| "gaps ts ls = False"

lemmas eval_defs =
  mount_def initial_def runTick_def setTimeout_def raf_effect_def requestAnimationFrame_def
  pending_def Let_def loop_def raf_cleanup_def tick_cleanup_def if_current_def clearTimeout_def
  cancelAnimationFrame_def

section \<open>Properties of the angle calculator\<close>

lemma getAngles_seconds:
  "secondsAngle (getAngles t) = (real (getSeconds t) + real (getMilliseconds t) / 1000) * 6"
  by (simp add: getAngles_def Let_def)

lemma getAngles_minutes:
  "minutesAngle (getAngles t) =
     (real (getMinutes t) + (real (getSeconds t) + real (getMilliseconds t) / 1000) / 60) * 6"
  by (simp add: getAngles_def Let_def)

lemma getAngles_hours:
  "hoursAngle (getAngles t) =
     (real (getHours t mod 12)
        + (real (getMinutes t) + (real (getSeconds t) + real (getMilliseconds t) / 1000) / 60) / 60)
     * 30"
  by (simp add: getAngles_def Let_def)

lemma seconds_fraction_bounds:
  assumes "getSeconds t < 60" "getMilliseconds t < 1000"
  shows "0 \<le> real (getSeconds t) + real (getMilliseconds t) / 1000"
    and "real (getSeconds t) + real (getMilliseconds t) / 1000 < 60"
proof -
  show "0 \<le> real (getSeconds t) + real (getMilliseconds t) / 1000" by simp
  have "real (getSeconds t) \<le> 59" using assms(1) by simp
  moreover have "real (getMilliseconds t) / 1000 < 1" using assms(2) by simp
  ultimately show "real (getSeconds t) + real (getMilliseconds t) / 1000 < 60" by linarith
qed

lemma minutes_fraction_bounds:
  assumes "valid_time t"
  shows "0 \<le> real (getMinutes t) + (real (getSeconds t) + real (getMilliseconds t) / 1000) / 60"
    and "real (getMinutes t) + (real (getSeconds t) + real (getMilliseconds t) / 1000) / 60 < 60"
proof -
  have s: "getSeconds t < 60" "getMilliseconds t < 1000" "getMinutes t < 60"
    using assms by (simp_all add: valid_time_def)
  note b = seconds_fraction_bounds [OF s(1) s(2)]
  show "0 \<le> real (getMinutes t) + (real (getSeconds t) + real (getMilliseconds t) / 1000) / 60"
    using b(1) by simp
  have "real (getMinutes t) \<le> 59" using s(3) by simp
  moreover have "(real (getSeconds t) + real (getMilliseconds t) / 1000) / 60 < 1"
    using b(2) by simp
  ultimately show
    "real (getMinutes t) + (real (getSeconds t) + real (getMilliseconds t) / 1000) / 60 < 60"
    by linarith
qed

lemma scale6_range:
  fixes x :: real
  assumes "0 \<le> x" "x < 60"
  shows "0 \<le> x * 6 \<and> x * 6 < 360"
  using assms by simp

lemma scale30_range:
  fixes h f :: real
  assumes "0 \<le> h" "h \<le> 11" "0 \<le> f" "f < 1"
  shows "0 \<le> (h + f) * 30 \<and> (h + f) * 30 < 360"
proof -
  have "0 \<le> h + f" "h + f < 12" using assms by linarith+
  then show ?thesis by simp
qed

text \<open>
  The three angles stay clear of 360 by margins far above the rounding error of double
  arithmetic on values of this size; the largest hour angle, at 23:59:59.999, is
  360 - 1/120000.
\<close>

lemma angle_margins:
  assumes "valid_time t"
  shows "secondsAngle (getAngles t) \<le> 360 - 6 / 1000"
    and "minutesAngle (getAngles t) \<le> 360 - 1 / 10000"
    and "hoursAngle (getAngles t) \<le> 360 - 1 / 120000"
proof -
  have "getMilliseconds t \<le> 999" "getSeconds t \<le> 59" "getMinutes t \<le> 59"
    "getHours t mod 12 \<le> 11"
    using assms by (simp_all add: valid_time_def)
  then have b: "real (getMilliseconds t) \<le> 999" "real (getSeconds t) \<le> 59"
    "real (getMinutes t) \<le> 59" "real (getHours t mod 12) \<le> 11"
    by (metis of_nat_le_iff of_nat_numeral)+
  show "secondsAngle (getAngles t) \<le> 360 - 6 / 1000"
    unfolding getAngles_seconds using b by (simp add: field_simps)
  show "minutesAngle (getAngles t) \<le> 360 - 1 / 10000"
    unfolding getAngles_minutes using b by (simp add: field_simps)
  show "hoursAngle (getAngles t) \<le> 360 - 1 / 120000"
    unfolding getAngles_hours using b by (simp add: field_simps)
qed

lemma hoursAngle_largest:
  "hoursAngle (getAngles \<lparr>getHours = 23, getMinutes = 59, getSeconds = 59, getMilliseconds = 999\<rparr>)
     = 360 - 1 / 120000"
  by (simp add: getAngles_def Let_def)

text \<open>
  Claim C1. For every point in time the angle calculator returns
  secondsAngle = (second + millisecond/1000) * 6,
  minutesAngle = (minute + (second + millisecond/1000)/60) * 6 and
  hoursAngle = ((hour mod 12) + (minute + (second + millisecond/1000)/60)/60) * 30.
  The equations hold for every value of the four fields, the valid ones included.
\<close>

theorem getAngles_formulas:
  "getAngles t =
     \<lparr>secondsAngle = (real (getSeconds t) + real (getMilliseconds t) / 1000) * 6,
      minutesAngle =
        (real (getMinutes t) + (real (getSeconds t) + real (getMilliseconds t) / 1000) / 60) * 6,
      hoursAngle =
        (real (getHours t mod 12)
           + (real (getMinutes t) + (real (getSeconds t) + real (getMilliseconds t) / 1000) / 60) / 60)
        * 30\<rparr>"
  by (simp add: getAngles_def Let_def)

text \<open>
  Claim C2. For every valid point in time the hour hand's angle is at least 0 and
  strictly below 360 degrees.
\<close>

theorem hoursAngle_range:
  assumes "valid_time t"
  shows "0 \<le> hoursAngle (getAngles t) \<and> hoursAngle (getAngles t) < 360"
proof -
  note m = minutes_fraction_bounds [OF assms]
  have h: "real (getHours t mod 12) \<le> 11"
  proof -
    have "getHours t mod 12 < 12" by simp
    then have "getHours t mod 12 \<le> 11" by linarith
    then show ?thesis by (metis of_nat_le_iff of_nat_numeral)
  qed
  have f: "(real (getMinutes t) + (real (getSeconds t) + real (getMilliseconds t) / 1000) / 60) / 60 < 1"
    using m(2) by simp
  have g: "0 \<le> (real (getMinutes t) + (real (getSeconds t) + real (getMilliseconds t) / 1000) / 60) / 60"
    using m(1) by simp
  have "0 \<le> real (getHours t mod 12)" by simp
  then show ?thesis
    unfolding getAngles_hours using h f g by (intro scale30_range)
qed

theorem hoursAngle_range_witness:
  "valid_time \<lparr>getHours = 23, getMinutes = 59, getSeconds = 59, getMilliseconds = 999\<rparr>
   \<and> 0 \<le> hoursAngle (getAngles \<lparr>getHours = 23, getMinutes = 59, getSeconds = 59, getMilliseconds = 999\<rparr>)
   \<and> hoursAngle (getAngles \<lparr>getHours = 23, getMinutes = 59, getSeconds = 59, getMilliseconds = 999\<rparr>) < 360"
  using hoursAngle_range
    [of "\<lparr>getHours = 23, getMinutes = 59, getSeconds = 59, getMilliseconds = 999\<rparr>"]
  by (simp add: valid_time_def)

text \<open>
  Claim C10. For every valid point in time the second hand's angle and the minute
  hand's angle each lie in the half-open interval from 0 to 360: neither reaches 360,
  the millisecond fraction included.
\<close>

theorem seconds_minutes_angle_range:
  assumes "valid_time t"
  shows "0 \<le> secondsAngle (getAngles t) \<and> secondsAngle (getAngles t) < 360
       \<and> 0 \<le> minutesAngle (getAngles t) \<and> minutesAngle (getAngles t) < 360"
proof -
  have s: "getSeconds t < 60" "getMilliseconds t < 1000"
    using assms by (simp_all add: valid_time_def)
  note a = seconds_fraction_bounds [OF s]
  note b = minutes_fraction_bounds [OF assms]
  show ?thesis
    unfolding getAngles_seconds getAngles_minutes
    using scale6_range [OF a] scale6_range [OF b] by simp
qed

theorem seconds_minutes_angle_range_witness:
  "valid_time \<lparr>getHours = 23, getMinutes = 59, getSeconds = 59, getMilliseconds = 999\<rparr>
   \<and> 0 \<le> secondsAngle (getAngles \<lparr>getHours = 23, getMinutes = 59, getSeconds = 59, getMilliseconds = 999\<rparr>)
   \<and> secondsAngle (getAngles \<lparr>getHours = 23, getMinutes = 59, getSeconds = 59, getMilliseconds = 999\<rparr>) < 360
   \<and> 0 \<le> minutesAngle (getAngles \<lparr>getHours = 23, getMinutes = 59, getSeconds = 59, getMilliseconds = 999\<rparr>)
   \<and> minutesAngle (getAngles \<lparr>getHours = 23, getMinutes = 59, getSeconds = 59, getMilliseconds = 999\<rparr>) < 360"
  using seconds_minutes_angle_range
    [of "\<lparr>getHours = 23, getMinutes = 59, getSeconds = 59, getMilliseconds = 999\<rparr>"]
  by (simp add: valid_time_def)

section \<open>Properties of the view\<close>

lemma filter_eq_upt:
  "filter (\<lambda>i. i = k) [a..<b] = (if a \<le> k \<and> k < b then [k] else [])"
  by (induction b) auto

lemma minutes_as_map:
  "minutes d1 d2 d3 d4 d5 d6 =
     map (\<lambda>i. (i, classNames (currentSecond d1 d2) (currentMinute d3 d4) (currentHour d5 d6) i))
       [1..<61]"
proof -
  have "[1..<61] = map Suc [0..<60]"
    by (simp only: map_Suc_upt) simp
  then show ?thesis
    by (simp add: minutes_def Let_def comp_def)
qed

lemma filter_class:
  assumes "\<And>i. (f i = c) = (i = k \<and> ok)"
  shows "filter (\<lambda>x. snd x = c) (map (\<lambda>i. (i, f i)) [a..<b])
           = (if ok \<and> a \<le> k \<and> k < b then [(k, c)] else [])"
proof -
  have "filter (\<lambda>x. snd x = c) (map (\<lambda>i. (i, f i)) [a..<b])
          = map (\<lambda>i. (i, f i)) (filter (\<lambda>i. i = k \<and> ok) [a..<b])"
    by (simp add: filter_map comp_def assms)
  also have "filter (\<lambda>i. i = k \<and> ok) [a..<b] = (if ok then filter (\<lambda>i. i = k) [a..<b] else [])"
    by simp
  finally show ?thesis
    using assms [of k] by (auto simp add: filter_eq_upt)
qed

lemma class_second: "(classNames cs cm ch i = ''svg-minute active-second'') = (i = cs \<and> True)"
  by (simp add: classNames_def Let_def)

lemma class_minute:
  "(classNames cs cm ch i = ''svg-minute active-minute'') = (i = cm \<and> cm \<noteq> cs)"
  by (auto simp add: classNames_def Let_def)

lemma class_hour:
  "(classNames cs cm ch i = ''svg-minute active-hour'') = (i = ch \<and> (ch \<noteq> cs \<and> ch \<noteq> cm))"
  by (auto simp add: classNames_def Let_def)

lemma class_default:
  "(classNames cs cm ch i = ''svg-minute'') = (i \<noteq> cs \<and> i \<noteq> cm \<and> i \<noteq> ch)"
  by (auto simp add: classNames_def Let_def)

text \<open>
  In a render whose six clock reads all return the same time \<open>t\<close>, the minute ring
  carries the labels 1 to 60 and among them exactly one has the class active-second,
  the label of the current second with 0 taken as 60; exactly one has active-minute,
  the label of the current minute with 0 taken as 60, unless that label is the
  active-second one; exactly one has active-hour, the label of the current hour mod 12
  with 0 taken as 12, unless that label is one of the two before; and every other label
  has the default class. The code does not make the six reads agree.
\<close>

theorem label_classification:
  assumes "valid_time t"
  shows
    "let s = (if getSeconds t = 0 then 60 else getSeconds t);
         m = (if getMinutes t = 0 then 60 else getMinutes t);
         h = (if getHours t mod 12 = 0 then 12 else getHours t mod 12);
         labels = minutes t t t t t t
     in map fst labels = [1..<61]
      \<and> filter (\<lambda>x. snd x = ''svg-minute active-second'') labels
          = [(s, ''svg-minute active-second'')]
      \<and> filter (\<lambda>x. snd x = ''svg-minute active-minute'') labels
          = (if m = s then [] else [(m, ''svg-minute active-minute'')])
      \<and> filter (\<lambda>x. snd x = ''svg-minute active-hour'') labels
          = (if h = s \<or> h = m then [] else [(h, ''svg-minute active-hour'')])
      \<and> (\<forall>x \<in> set labels. fst x \<noteq> s \<and> fst x \<noteq> m \<and> fst x \<noteq> h \<longrightarrow> snd x = ''svg-minute'')"
proof -
  define s where "s = currentSecond t t"
  define m where "m = currentMinute t t"
  define h where "h = currentHour t t"
  have v: "getSeconds t < 60" "getMinutes t < 60"
    using assms by (simp_all add: valid_time_def)
  have s: "1 \<le> s" "s < 61" using v by (simp_all add: s_def currentSecond_def)
  have m: "1 \<le> m" "m < 61" using v by (simp_all add: m_def currentMinute_def)
  have hh: "getHours t mod 12 < 12" by simp
  have h1: "1 \<le> h" by (simp add: h_def currentHour_def)
  have "h \<le> 12" unfolding h_def currentHour_def using hh by (simp only: split: if_splits) linarith
  then have h2: "h < 61" by linarith
  note h = h1 h2
  have L: "minutes t t t t t t = map (\<lambda>i. (i, classNames s m h i)) [1..<61]"
    by (simp only: minutes_as_map s_def m_def h_def)
  have 1: "map fst (minutes t t t t t t) = [1..<61]"
    unfolding L by (simp add: comp_def)
  have 2: "filter (\<lambda>x. snd x = ''svg-minute active-second'') (minutes t t t t t t)
             = [(s, ''svg-minute active-second'')]"
    unfolding L using s by (simp only: filter_class [OF class_second]) simp
  have 3: "filter (\<lambda>x. snd x = ''svg-minute active-minute'') (minutes t t t t t t)
             = (if m = s then [] else [(m, ''svg-minute active-minute'')])"
    unfolding L using m by (simp only: filter_class [OF class_minute]) simp
  have 4: "filter (\<lambda>x. snd x = ''svg-minute active-hour'') (minutes t t t t t t)
             = (if h = s \<or> h = m then [] else [(h, ''svg-minute active-hour'')])"
    unfolding L using h by (simp only: filter_class [OF class_hour]) simp
  have 5: "\<forall>x \<in> set (minutes t t t t t t).
             fst x \<noteq> s \<and> fst x \<noteq> m \<and> fst x \<noteq> h \<longrightarrow> snd x = ''svg-minute''"
    unfolding L by (auto simp add: class_default)
  show ?thesis
    using 1 2 3 4 5
    by (simp only: Let_def s_def [symmetric, unfolded currentSecond_def]
        m_def [symmetric, unfolded currentMinute_def] h_def [symmetric, unfolded currentHour_def])
qed

theorem label_classification_witness:
  "valid_time \<lparr>getHours = 15, getMinutes = 7, getSeconds = 0, getMilliseconds = 250\<rparr>
   \<and> filter (\<lambda>x. snd x = ''svg-minute active-second'')
        (minutes \<lparr>getHours = 15, getMinutes = 7, getSeconds = 0, getMilliseconds = 250\<rparr>
                 \<lparr>getHours = 15, getMinutes = 7, getSeconds = 0, getMilliseconds = 250\<rparr>
                 \<lparr>getHours = 15, getMinutes = 7, getSeconds = 0, getMilliseconds = 250\<rparr>
                 \<lparr>getHours = 15, getMinutes = 7, getSeconds = 0, getMilliseconds = 250\<rparr>
                 \<lparr>getHours = 15, getMinutes = 7, getSeconds = 0, getMilliseconds = 250\<rparr>
                 \<lparr>getHours = 15, getMinutes = 7, getSeconds = 0, getMilliseconds = 250\<rparr>)
       = [(60, ''svg-minute active-second'')]
   \<and> filter (\<lambda>x. snd x = ''svg-minute active-minute'')
        (minutes \<lparr>getHours = 15, getMinutes = 7, getSeconds = 0, getMilliseconds = 250\<rparr>
                 \<lparr>getHours = 15, getMinutes = 7, getSeconds = 0, getMilliseconds = 250\<rparr>
                 \<lparr>getHours = 15, getMinutes = 7, getSeconds = 0, getMilliseconds = 250\<rparr>
                 \<lparr>getHours = 15, getMinutes = 7, getSeconds = 0, getMilliseconds = 250\<rparr>
                 \<lparr>getHours = 15, getMinutes = 7, getSeconds = 0, getMilliseconds = 250\<rparr>
                 \<lparr>getHours = 15, getMinutes = 7, getSeconds = 0, getMilliseconds = 250\<rparr>)
       = [(7, ''svg-minute active-minute'')]
   \<and> filter (\<lambda>x. snd x = ''svg-minute active-hour'')
        (minutes \<lparr>getHours = 15, getMinutes = 7, getSeconds = 0, getMilliseconds = 250\<rparr>
                 \<lparr>getHours = 15, getMinutes = 7, getSeconds = 0, getMilliseconds = 250\<rparr>
                 \<lparr>getHours = 15, getMinutes = 7, getSeconds = 0, getMilliseconds = 250\<rparr>
                 \<lparr>getHours = 15, getMinutes = 7, getSeconds = 0, getMilliseconds = 250\<rparr>
                 \<lparr>getHours = 15, getMinutes = 7, getSeconds = 0, getMilliseconds = 250\<rparr>
                 \<lparr>getHours = 15, getMinutes = 7, getSeconds = 0, getMilliseconds = 250\<rparr>)
       = [(3, ''svg-minute active-hour'')]
   \<and> snd (minutes \<lparr>getHours = 15, getMinutes = 7, getSeconds = 0, getMilliseconds = 250\<rparr>
                 \<lparr>getHours = 15, getMinutes = 7, getSeconds = 0, getMilliseconds = 250\<rparr>
                 \<lparr>getHours = 15, getMinutes = 7, getSeconds = 0, getMilliseconds = 250\<rparr>
                 \<lparr>getHours = 15, getMinutes = 7, getSeconds = 0, getMilliseconds = 250\<rparr>
                 \<lparr>getHours = 15, getMinutes = 7, getSeconds = 0, getMilliseconds = 250\<rparr>
                 \<lparr>getHours = 15, getMinutes = 7, getSeconds = 0, getMilliseconds = 250\<rparr> ! 0)
       = ''svg-minute''"
  using label_classification
    [of "\<lparr>getHours = 15, getMinutes = 7, getSeconds = 0, getMilliseconds = 250\<rparr>"]
  by (simp add: valid_time_def Let_def minutes_def)

text \<open>
  Claim C3 says that at any current time exactly one of the sixty labels has the class
  active-second, the label of the current second with 0 taken as 60. The code reads
  the clock twice for the current second, once in the test for second 0 and once in
  the else branch, and the two reads need not agree. In a render whose first read
  falls at 10:10:59.999 and whose later reads fall at 10:11:00.000, \<open>currentSecond\<close>
  is 0, which is the index of no label, and no label of the ring has the class
  active-second.
\<close>

theorem reads_across_second_boundary:
  "currentSecond \<lparr>getHours = 10, getMinutes = 10, getSeconds = 59, getMilliseconds = 999\<rparr>
                 \<lparr>getHours = 10, getMinutes = 11, getSeconds = 0, getMilliseconds = 0\<rparr> = 0
   \<and> filter (\<lambda>x. snd x = ''svg-minute active-second'')
        (minutes \<lparr>getHours = 10, getMinutes = 10, getSeconds = 59, getMilliseconds = 999\<rparr>
                 \<lparr>getHours = 10, getMinutes = 11, getSeconds = 0, getMilliseconds = 0\<rparr>
                 \<lparr>getHours = 10, getMinutes = 11, getSeconds = 0, getMilliseconds = 0\<rparr>
                 \<lparr>getHours = 10, getMinutes = 11, getSeconds = 0, getMilliseconds = 0\<rparr>
                 \<lparr>getHours = 10, getMinutes = 11, getSeconds = 0, getMilliseconds = 0\<rparr>
                 \<lparr>getHours = 10, getMinutes = 11, getSeconds = 0, getMilliseconds = 0\<rparr>)
       = []"
  by (simp add: minutes_as_map filter_class [OF class_second] currentSecond_def)

text \<open>
  Claim C7, as the code has it. The label of the clock's root element is the fixed text
  \<open>Analog clock showing\<close> and a space, followed by the locale-formatted time that the
  digital readout shows in the same render.
\<close>

theorem aria_label_prefix:
  "aria_label (App_view toLocaleTimeString t d1 d2 d3 d4 d5 d6)
     = ''Analog clock showing '' @ digital (App_view toLocaleTimeString t d1 d2 d3 d4 d5 d6)"
  by (simp add: App_view_def Let_def)

text \<open>
  Claim C7 as stated asks for the label to be equal to the digital readout; the prefix
  makes the two differ, here at 03:05:09.500 in the 24-hour format.
\<close>

theorem aria_label_differs:
  "aria_label (App_view time_24h
       \<lparr>getHours = 3, getMinutes = 5, getSeconds = 9, getMilliseconds = 500\<rparr>
       \<lparr>getHours = 3, getMinutes = 5, getSeconds = 9, getMilliseconds = 500\<rparr>
       \<lparr>getHours = 3, getMinutes = 5, getSeconds = 9, getMilliseconds = 500\<rparr>
       \<lparr>getHours = 3, getMinutes = 5, getSeconds = 9, getMilliseconds = 500\<rparr>
       \<lparr>getHours = 3, getMinutes = 5, getSeconds = 9, getMilliseconds = 500\<rparr>
       \<lparr>getHours = 3, getMinutes = 5, getSeconds = 9, getMilliseconds = 500\<rparr>
       \<lparr>getHours = 3, getMinutes = 5, getSeconds = 9, getMilliseconds = 500\<rparr>)
     = ''Analog clock showing 03:05:09''
   \<and> digital (App_view time_24h
       \<lparr>getHours = 3, getMinutes = 5, getSeconds = 9, getMilliseconds = 500\<rparr>
       \<lparr>getHours = 3, getMinutes = 5, getSeconds = 9, getMilliseconds = 500\<rparr>
       \<lparr>getHours = 3, getMinutes = 5, getSeconds = 9, getMilliseconds = 500\<rparr>
       \<lparr>getHours = 3, getMinutes = 5, getSeconds = 9, getMilliseconds = 500\<rparr>
       \<lparr>getHours = 3, getMinutes = 5, getSeconds = 9, getMilliseconds = 500\<rparr>
       \<lparr>getHours = 3, getMinutes = 5, getSeconds = 9, getMilliseconds = 500\<rparr>
       \<lparr>getHours = 3, getMinutes = 5, getSeconds = 9, getMilliseconds = 500\<rparr>)
     = ''03:05:09''
   \<and> aria_label (App_view time_24h
       \<lparr>getHours = 3, getMinutes = 5, getSeconds = 9, getMilliseconds = 500\<rparr>
       \<lparr>getHours = 3, getMinutes = 5, getSeconds = 9, getMilliseconds = 500\<rparr>
       \<lparr>getHours = 3, getMinutes = 5, getSeconds = 9, getMilliseconds = 500\<rparr>
       \<lparr>getHours = 3, getMinutes = 5, getSeconds = 9, getMilliseconds = 500\<rparr>
       \<lparr>getHours = 3, getMinutes = 5, getSeconds = 9, getMilliseconds = 500\<rparr>
       \<lparr>getHours = 3, getMinutes = 5, getSeconds = 9, getMilliseconds = 500\<rparr>
       \<lparr>getHours = 3, getMinutes = 5, getSeconds = 9, getMilliseconds = 500\<rparr>)
     \<noteq> digital (App_view time_24h
       \<lparr>getHours = 3, getMinutes = 5, getSeconds = 9, getMilliseconds = 500\<rparr>
       \<lparr>getHours = 3, getMinutes = 5, getSeconds = 9, getMilliseconds = 500\<rparr>
       \<lparr>getHours = 3, getMinutes = 5, getSeconds = 9, getMilliseconds = 500\<rparr>
       \<lparr>getHours = 3, getMinutes = 5, getSeconds = 9, getMilliseconds = 500\<rparr>
       \<lparr>getHours = 3, getMinutes = 5, getSeconds = 9, getMilliseconds = 500\<rparr>
       \<lparr>getHours = 3, getMinutes = 5, getSeconds = 9, getMilliseconds = 500\<rparr>
       \<lparr>getHours = 3, getMinutes = 5, getSeconds = 9, getMilliseconds = 500\<rparr>)"
  by (simp add: App_view_def Let_def formatDigital_def time_24h_def two_digits_def)

text \<open>
  Claim C8 says that two renders with the same point in time in the state classify the
  minute labels alike. The code classifies them by the wall clock read during the
  render: with 10:10:10.000 in the state both times, label 11 has the default class
  when the render reads the clock at 10:10:10.002 and the class active-second when it
  reads it at 10:10:11.001.
\<close>

theorem labels_follow_render_clock:
  "minute_labels (App_view toLocaleTimeString
       \<lparr>getHours = 10, getMinutes = 10, getSeconds = 10, getMilliseconds = 0\<rparr>
       \<lparr>getHours = 10, getMinutes = 10, getSeconds = 10, getMilliseconds = 2\<rparr>
       \<lparr>getHours = 10, getMinutes = 10, getSeconds = 10, getMilliseconds = 2\<rparr>
       \<lparr>getHours = 10, getMinutes = 10, getSeconds = 10, getMilliseconds = 2\<rparr>
       \<lparr>getHours = 10, getMinutes = 10, getSeconds = 10, getMilliseconds = 2\<rparr>
       \<lparr>getHours = 10, getMinutes = 10, getSeconds = 10, getMilliseconds = 2\<rparr>
       \<lparr>getHours = 10, getMinutes = 10, getSeconds = 10, getMilliseconds = 2\<rparr>) ! 10
     = (11, ''svg-minute'')
   \<and> minute_labels (App_view toLocaleTimeString
       \<lparr>getHours = 10, getMinutes = 10, getSeconds = 10, getMilliseconds = 0\<rparr>
       \<lparr>getHours = 10, getMinutes = 10, getSeconds = 11, getMilliseconds = 1\<rparr>
       \<lparr>getHours = 10, getMinutes = 10, getSeconds = 11, getMilliseconds = 1\<rparr>
       \<lparr>getHours = 10, getMinutes = 10, getSeconds = 11, getMilliseconds = 1\<rparr>
       \<lparr>getHours = 10, getMinutes = 10, getSeconds = 11, getMilliseconds = 1\<rparr>
       \<lparr>getHours = 10, getMinutes = 10, getSeconds = 11, getMilliseconds = 1\<rparr>
       \<lparr>getHours = 10, getMinutes = 10, getSeconds = 11, getMilliseconds = 1\<rparr>) ! 10
     = (11, ''svg-minute active-second'')"
  by (simp add: App_view_def Let_def minutes_def currentSecond_def currentMinute_def
      currentHour_def classNames_def)

section \<open>Properties of the ticker and the frame refresher\<close>

subsection \<open>What the callbacks touch\<close>

lemma runTick_fields:
  "now (runTick d s) = d"
  "tickRef (runTick d s) = Some (nextTimeoutId s)"
  "timeouts (runTick d s) =
     timeouts s @ [\<lparr>tid = nextTimeoutId s, armedAt = clock s, delay = 1000 - clock s mod 1000\<rparr>]"
  "nextTimeoutId (runTick d s) = nextTimeoutId s + 1"
  "clock (runTick d s) = clock s"
  "rafRef (runTick d s) = rafRef s"
  "frames (runTick d s) = frames s"
  "running (runTick d s) = running s"
  by (simp_all add: runTick_def setTimeout_def Let_def)

lemma loop_fields:
  "now (loop s) = now s"
  "tickRef (loop s) = tickRef s"
  "timeouts (loop s) = timeouts s"
  "nextTimeoutId (loop s) = nextTimeoutId s"
  "clock (loop s) = clock s"
  by (simp_all add: loop_def requestAnimationFrame_def Let_def)

lemma if_current_cancel_fields:
  "now (if_current r cancelAnimationFrame s) = now s"
  "tickRef (if_current r cancelAnimationFrame s) = tickRef s"
  "timeouts (if_current r cancelAnimationFrame s) = timeouts s"
  "nextTimeoutId (if_current r cancelAnimationFrame s) = nextTimeoutId s"
  "clock (if_current r cancelAnimationFrame s) = clock s"
  by (simp_all add: if_current_def cancelAnimationFrame_def split: option.splits)

lemma if_current_clear_fields:
  "now (if_current r clearTimeout s) = now s"
  "tickRef (if_current r clearTimeout s) = tickRef s"
  "nextTimeoutId (if_current r clearTimeout s) = nextTimeoutId s"
  "clock (if_current r clearTimeout s) = clock s"
  by (simp_all add: if_current_def clearTimeout_def split: option.splits)

lemma raf_effect_fields:
  "now (raf_effect s) = now s"
  "tickRef (raf_effect s) = tickRef s"
  "timeouts (raf_effect s) = timeouts s"
  "nextTimeoutId (raf_effect s) = nextTimeoutId s"
  "clock (raf_effect s) = clock s"
  by (simp_all add: raf_effect_def requestAnimationFrame_def Let_def)

lemma raf_cleanup_fields:
  "now (raf_cleanup s) = now s"
  "tickRef (raf_cleanup s) = tickRef s"
  "timeouts (raf_cleanup s) = timeouts s"
  "nextTimeoutId (raf_cleanup s) = nextTimeoutId s"
  "clock (raf_cleanup s) = clock s"
  by (simp_all add: raf_cleanup_def Let_def if_current_cancel_fields)

lemma tick_cleanup_fields:
  "now (tick_cleanup s) = now s"
  "tickRef (tick_cleanup s) = tickRef s"
  "timeouts (tick_cleanup s) = timeouts (if_current (tickRef s) clearTimeout s)"
  "nextTimeoutId (tick_cleanup s) = nextTimeoutId s"
  "clock (tick_cleanup s) = clock s"
  by (simp_all add: tick_cleanup_def Let_def if_current_cancel_fields if_current_clear_fields)

lemma unmount_fields:
  "now (step Unmount s) = now s"
  "tickRef (step Unmount s) = tickRef s"
  "timeouts (step Unmount s) = timeouts (if_current (tickRef s) clearTimeout s)"
  "nextTimeoutId (step Unmount s) = nextTimeoutId s"
  "clock (step Unmount s) = clock s"
  by (simp_all add: raf_cleanup_fields tick_cleanup_fields)

lemma frame_fields:
  "now (step (AnimationFrame h) s) = now s"
  "tickRef (step (AnimationFrame h) s) = tickRef s"
  "timeouts (step (AnimationFrame h) s) = timeouts s"
  "nextTimeoutId (step (AnimationFrame h) s) = nextTimeoutId s"
  "clock (step (AnimationFrame h) s) = clock s"
  by (simp_all add: loop_fields)

subsection \<open>The ticker invariant\<close>

lemma next_boundary_aligned:
  "next_boundary t mod 1000 = 0" "t < next_boundary t" "next_boundary t \<le> t + 1000"
proof -
  have m: "t mod 1000 < 1000" by simp
  have e: "t = t div 1000 * 1000 + t mod 1000" by simp
  have "t + (1000 - t mod 1000) = t div 1000 * 1000 + (t mod 1000 + (1000 - t mod 1000))"
    using e by linarith
  also have "t mod 1000 + (1000 - t mod 1000) = 1000" using m by linarith
  finally have "t + (1000 - t mod 1000) = (t div 1000 + 1) * 1000" by simp
  then show "next_boundary t mod 1000 = 0" unfolding next_boundary_def by simp
  show "t < next_boundary t" unfolding next_boundary_def using m by linarith
  show "next_boundary t \<le> t + 1000" unfolding next_boundary_def by simp
qed

lemma ticker_inv_mount: "ticker_inv t0 (mount d0 d1 t0)"
  by (simp add: ticker_inv_def mount_def raf_effect_fields runTick_fields initial_def)

lemma pending_single:
  assumes "ticker_inv prev s" "pending h s"
  shows "\<exists>t. timeouts s = [t] \<and> tid t = h \<and> armedAt t = prev \<and> delay t = 1000 - prev mod 1000"
proof (cases "timeouts s")
  case Nil
  with assms(2) show ?thesis by (simp add: pending_def)
next
  case (Cons t ts)
  with assms(1) have ts: "ts = []" and b: "armedAt t = prev" "delay t = 1000 - prev mod 1000"
    by (auto simp add: ticker_inv_def split: list.splits)
  from assms(2) Cons ts have "tid t = h"
    by (auto simp add: pending_def split: if_splits)
  with Cons ts b show ?thesis by simp
qed

lemma ticker_inv_fire:
  assumes "ticker_inv prev s" "pending h s"
  shows "ticker_inv (clock s) (step (Timeout h d) s)"
    and "lateness (Timeout h d) s = Some (int (clock s) - int (next_boundary prev))"
proof -
  from pending_single [OF assms] obtain t where
    t: "timeouts s = [t]" "tid t = h" "armedAt t = prev" "delay t = 1000 - prev mod 1000"
    by blast
  show "lateness (Timeout h d) s = Some (int (clock s) - int (next_boundary prev))"
    using t by (simp add: next_boundary_def)
  have "0 < nextTimeoutId s" using assms(1) by (simp add: ticker_inv_def)
  then show "ticker_inv (clock s) (step (Timeout h d) s)"
    using assms(2) t by (simp add: ticker_inv_def runTick_fields)
qed

lemma lateness_idle: "\<not> ticker_fires e s \<Longrightarrow> lateness e s = None"
  by (cases e) (simp_all add: pending_def split: option.splits)

lemma ticker_inv_idle:
  assumes "ticker_inv prev s" "\<not> ticker_fires e s"
  shows "ticker_inv prev (step e s)"
proof (cases e)
  case (Elapse dt)
  with assms(1) show ?thesis by (auto simp add: ticker_inv_def split: list.splits)
next
  case (Timeout h d)
  with assms show ?thesis by simp
next
  case (AnimationFrame h)
  with assms(1) show ?thesis
    by (auto simp add: ticker_inv_def frame_fields simp del: step.simps split: list.splits)
next
  case Unmount
  with assms(1) show ?thesis
    by (auto simp add: ticker_inv_def unmount_fields if_current_def clearTimeout_def
        simp del: step.simps split: list.splits option.splits)
qed

lemma ticker_inv_step:
  assumes "ticker_inv prev s"
  shows "\<exists>prev'. ticker_inv prev' (step e s)"
proof (cases "ticker_fires e s")
  case True
  then obtain h d where e: "e = Timeout h d" and d: "pending h s"
    by (cases e) simp_all
  from ticker_inv_fire(1) [OF assms d, of d] e show ?thesis by blast
next
  case False
  from ticker_inv_idle [OF assms False] show ?thesis by blast
qed

lemma ticker_inv_run: "ticker_inv prev s \<Longrightarrow> \<exists>prev'. ticker_inv prev' (run es s)"
proof (induction es arbitrary: s prev)
  case Nil
  then show ?case by auto
next
  case (Cons e es)
  from ticker_inv_step [OF Cons.prems] obtain l where "ticker_inv l (step e s)" by blast
  from Cons.IH [OF this] show ?case by simp
qed

lemma unmount_clears: "ticker_inv prev s \<Longrightarrow> timeouts (step Unmount s) = []"
  by (auto simp add: ticker_inv_def unmount_fields if_current_def clearTimeout_def
      simp del: step.simps split: list.splits option.splits)

lemma idle_step:
  assumes "timeouts s = []"
  shows "timeouts (step e s) = []" "now (step e s) = now s" "\<not> ticker_fires e s"
proof -
  have nd: "\<And>h. \<not> pending h s" using assms by (simp add: pending_def)
  show "timeouts (step e s) = []"
    using assms nd
    by (cases e) (simp_all add: frame_fields unmount_fields if_current_def clearTimeout_def
        del: step.simps(3,4) split: option.splits)
  show "now (step e s) = now s"
    using nd by (cases e) (simp_all add: frame_fields unmount_fields del: step.simps(3,4))
  show "\<not> ticker_fires e s"
    using nd by (cases e) simp_all
qed

lemma idle_run:
  "timeouts s = [] \<Longrightarrow> now (run es s) = now s \<and> firing_times es s = [] \<and> timeouts (run es s) = []"
proof (induction es arbitrary: s)
  case Nil
  then show ?case by simp
next
  case (Cons e es)
  note i = idle_step [OF Cons.prems, of e]
  from Cons.IH [OF i(1)] i show ?case by simp
qed

lemma run_append: "run (es1 @ es2) s = run es2 (run es1 s)"
  by (induction es1 arbitrary: s) simp_all

lemma gaps_firings:
  "ticker_inv prev s \<Longrightarrow> gaps (prev # firing_times es s) (firing_lateness es s)"
proof (induction es arbitrary: s prev)
  case Nil
  then show ?case by simp
next
  case (Cons e es)
  show ?case
  proof (cases "ticker_fires e s")
    case True
    then obtain h d where e: "e = Timeout h d" and d: "pending h s"
      by (cases e) simp_all
    note f1 = ticker_inv_fire(1) [OF Cons.prems d, of d]
    note f2 = ticker_inv_fire(2) [OF Cons.prems d, of d]
    from Cons.IH [OF f1 [folded e]] f2 [folded e] True show ?thesis
      by (simp del: lateness.simps step.simps)
  next
    case False
    from Cons.IH [OF ticker_inv_idle [OF Cons.prems False]] False lateness_idle [OF False]
    show ?thesis by (simp del: lateness.simps step.simps)
  qed
qed

lemma gaps_nth:
  "gaps ts ls \<Longrightarrow> Suc k < length ts \<Longrightarrow>
     k < length ls \<and> int (ts ! Suc k) = int (next_boundary (ts ! k)) + ls ! k"
proof (induction ts ls arbitrary: k rule: gaps.induct)
  case (1 a b ts l ls)
  then show ?case by (cases k) simp_all
qed simp_all

text \<open>
  Claim C4. Each run of the ticker's callback publishes the time it has just captured
  as the new state, computes the delay 1000 - (current milliseconds mod 1000) and arms
  one new timer with exactly that delay, keeping its handle in \<open>tickRef\<close>. So at every
  firing of the ticker in a run after mounting, the state cell holds the time captured
  in that firing and the timer just armed is the only one pending.
\<close>

theorem ticker_firing_publishes_and_schedules:
  "now (runTick d s) = d
   \<and> timeouts (runTick d s)
       = timeouts s @ [\<lparr>tid = nextTimeoutId s, armedAt = clock s, delay = 1000 - clock s mod 1000\<rparr>]
   \<and> tickRef (runTick d s) = Some (nextTimeoutId s)
   \<and> (r = run es (mount d0 d1 t0) \<and> ticker_fires (Timeout h d) r \<longrightarrow>
        now (step (Timeout h d) r) = d
        \<and> timeouts (step (Timeout h d) r)
            = [\<lparr>tid = nextTimeoutId r, armedAt = clock r, delay = 1000 - clock r mod 1000\<rparr>]
        \<and> tickRef (step (Timeout h d) r) = Some (nextTimeoutId r))"
proof -
  have a: "now (runTick d s) = d
   \<and> timeouts (runTick d s)
       = timeouts s @ [\<lparr>tid = nextTimeoutId s, armedAt = clock s, delay = 1000 - clock s mod 1000\<rparr>]
   \<and> tickRef (runTick d s) = Some (nextTimeoutId s)"
    by (simp add: runTick_fields)
  have b: "now (step (Timeout h d) r) = d
        \<and> timeouts (step (Timeout h d) r)
            = [\<lparr>tid = nextTimeoutId r, armedAt = clock r, delay = 1000 - clock r mod 1000\<rparr>]
        \<and> tickRef (step (Timeout h d) r) = Some (nextTimeoutId r)"
    if r: "r = run es (mount d0 d1 t0)" and f: "ticker_fires (Timeout h d) r"
  proof -
    from ticker_inv_run [OF ticker_inv_mount] r obtain p where p: "ticker_inv p r" by blast
    from f have d: "pending h r" by simp
    from pending_single [OF p d] obtain t where "timeouts r = [t]" "tid t = h" by blast
    with d show ?thesis by (simp add: runTick_fields)
  qed
  from a b show ?thesis by blast
qed

theorem ticker_firing_publishes_and_schedules_witness:
  "ticker_fires
     (Timeout 1 \<lparr>getHours = 0, getMinutes = 0, getSeconds = 1, getMilliseconds = 3\<rparr>)
     (run [Elapse 1003]
        (mount \<lparr>getHours = 0, getMinutes = 0, getSeconds = 0, getMilliseconds = 0\<rparr>
               \<lparr>getHours = 0, getMinutes = 0, getSeconds = 0, getMilliseconds = 0\<rparr> 0))
   \<and> now (step
        (Timeout 1 \<lparr>getHours = 0, getMinutes = 0, getSeconds = 1, getMilliseconds = 3\<rparr>)
        (run [Elapse 1003]
           (mount \<lparr>getHours = 0, getMinutes = 0, getSeconds = 0, getMilliseconds = 0\<rparr>
                  \<lparr>getHours = 0, getMinutes = 0, getSeconds = 0, getMilliseconds = 0\<rparr> 0)))
       = \<lparr>getHours = 0, getMinutes = 0, getSeconds = 1, getMilliseconds = 3\<rparr>
   \<and> timeouts (step
        (Timeout 1 \<lparr>getHours = 0, getMinutes = 0, getSeconds = 1, getMilliseconds = 3\<rparr>)
        (run [Elapse 1003]
           (mount \<lparr>getHours = 0, getMinutes = 0, getSeconds = 0, getMilliseconds = 0\<rparr>
                  \<lparr>getHours = 0, getMinutes = 0, getSeconds = 0, getMilliseconds = 0\<rparr> 0)))
       = [\<lparr>tid = 2, armedAt = 1003, delay = 997\<rparr>]"
proof -
  have f: "ticker_fires
     (Timeout 1 \<lparr>getHours = 0, getMinutes = 0, getSeconds = 1, getMilliseconds = 3\<rparr>)
     (run [Elapse 1003]
        (mount \<lparr>getHours = 0, getMinutes = 0, getSeconds = 0, getMilliseconds = 0\<rparr>
               \<lparr>getHours = 0, getMinutes = 0, getSeconds = 0, getMilliseconds = 0\<rparr> 0))"
    by (simp add: eval_defs)
  have v: "nextTimeoutId (run [Elapse 1003]
        (mount \<lparr>getHours = 0, getMinutes = 0, getSeconds = 0, getMilliseconds = 0\<rparr>
               \<lparr>getHours = 0, getMinutes = 0, getSeconds = 0, getMilliseconds = 0\<rparr> 0)) = 2"
    "clock (run [Elapse 1003]
        (mount \<lparr>getHours = 0, getMinutes = 0, getSeconds = 0, getMilliseconds = 0\<rparr>
               \<lparr>getHours = 0, getMinutes = 0, getSeconds = 0, getMilliseconds = 0\<rparr> 0)) = 1003"
    by (simp_all add: eval_defs)
  from ticker_firing_publishes_and_schedules
    [of "\<lparr>getHours = 0, getMinutes = 0, getSeconds = 1, getMilliseconds = 3\<rparr>" _
        "run [Elapse 1003]
          (mount \<lparr>getHours = 0, getMinutes = 0, getSeconds = 0, getMilliseconds = 0\<rparr>
                 \<lparr>getHours = 0, getMinutes = 0, getSeconds = 0, getMilliseconds = 0\<rparr> 0)"
        "[Elapse 1003]"
        "\<lparr>getHours = 0, getMinutes = 0, getSeconds = 0, getMilliseconds = 0\<rparr>"
        "\<lparr>getHours = 0, getMinutes = 0, getSeconds = 0, getMilliseconds = 0\<rparr>" 0 1]
    f v
  show ?thesis by (simp del: step.simps run.simps ticker_fires.simps)
qed

text \<open>
  A callback delivered one millisecond early is a run of the model like any other: after
  a firing at 1001 the timer aims at 2000, and a delivery at 1999 has lateness -1,
  publishes its time and arms a timer of one millisecond.
\<close>

lemma early_delivery:
  "firing_times
     [Elapse 1001,
      Timeout 1 \<lparr>getHours = 0, getMinutes = 0, getSeconds = 1, getMilliseconds = 1\<rparr>,
      Elapse 998,
      Timeout 2 \<lparr>getHours = 0, getMinutes = 0, getSeconds = 1, getMilliseconds = 999\<rparr>]
     (mount \<lparr>getHours = 0, getMinutes = 0, getSeconds = 0, getMilliseconds = 0\<rparr>
            \<lparr>getHours = 0, getMinutes = 0, getSeconds = 0, getMilliseconds = 0\<rparr> 0)
     = [1001, 1999]
   \<and> firing_lateness
     [Elapse 1001,
      Timeout 1 \<lparr>getHours = 0, getMinutes = 0, getSeconds = 1, getMilliseconds = 1\<rparr>,
      Elapse 998,
      Timeout 2 \<lparr>getHours = 0, getMinutes = 0, getSeconds = 1, getMilliseconds = 999\<rparr>]
     (mount \<lparr>getHours = 0, getMinutes = 0, getSeconds = 0, getMilliseconds = 0\<rparr>
            \<lparr>getHours = 0, getMinutes = 0, getSeconds = 0, getMilliseconds = 0\<rparr> 0)
     = [1, - 1]
   \<and> timeouts (run
     [Elapse 1001,
      Timeout 1 \<lparr>getHours = 0, getMinutes = 0, getSeconds = 1, getMilliseconds = 1\<rparr>,
      Elapse 998,
      Timeout 2 \<lparr>getHours = 0, getMinutes = 0, getSeconds = 1, getMilliseconds = 999\<rparr>]
     (mount \<lparr>getHours = 0, getMinutes = 0, getSeconds = 0, getMilliseconds = 0\<rparr>
            \<lparr>getHours = 0, getMinutes = 0, getSeconds = 0, getMilliseconds = 0\<rparr> 0))
     = [\<lparr>tid = 3, armedAt = 1999, delay = 1\<rparr>]"
  by (simp add: eval_defs)

text \<open>
  Claim C5, as the code has it. Take two consecutive firings of the ticker in a run
  after mounting, the mount-time run of the callback included, at the clock readings
  \<open>t1\<close> and \<open>t2\<close>. The timer between them was armed for the first second boundary after
  \<open>t1\<close>, so the elapsed time \<open>t2 - t1\<close> is 1000 - (t1 mod 1000) plus the lateness of
  that timer's delivery. When the scheduler delivers the timer with a lateness in
  [0, eps), the elapsed time lies in [1000 - (t1 mod 1000), 1000 - (t1 mod 1000) + eps)
  and the later firing lies in [B, B + eps) for that boundary \<open>B\<close>, a multiple of 1000
  with t1 < B and B at most t1 + 1000.
\<close>

theorem consecutive_firings_gap:
  assumes "ts = t0 # firing_times es (mount d0 d1 t0)"
    and "ls = firing_lateness es (mount d0 d1 t0)"
    and "Suc k < length ts"
  shows "k < length ls
       \<and> int (ts ! Suc k) - int (ts ! k) = int (1000 - ts ! k mod 1000) + ls ! k
       \<and> (ts ! k + (1000 - ts ! k mod 1000)) mod 1000 = 0
       \<and> (0 \<le> ls ! k \<and> ls ! k < eps \<longrightarrow>
            int (1000 - ts ! k mod 1000) \<le> int (ts ! Suc k) - int (ts ! k)
          \<and> int (ts ! Suc k) - int (ts ! k) < int (1000 - ts ! k mod 1000) + eps
          \<and> int (ts ! k + (1000 - ts ! k mod 1000)) \<le> int (ts ! Suc k)
          \<and> int (ts ! Suc k) < int (ts ! k + (1000 - ts ! k mod 1000)) + eps)"
proof -
  have "gaps ts ls"
    unfolding assms(1,2) by (rule gaps_firings [OF ticker_inv_mount])
  from gaps_nth [OF this assms(3)]
  have k: "k < length ls" and g: "int (ts ! Suc k) = int (next_boundary (ts ! k)) + ls ! k"
    by simp_all
  have b: "int (next_boundary (ts ! k)) = int (ts ! k) + int (1000 - ts ! k mod 1000)"
    by (simp add: next_boundary_def)
  have a: "(ts ! k + (1000 - ts ! k mod 1000)) mod 1000 = 0"
    using next_boundary_aligned(1) [of "ts ! k"] by (simp add: next_boundary_def)
  have e: "int (ts ! Suc k) - int (ts ! k) = int (1000 - ts ! k mod 1000) + ls ! k"
    using g b by linarith
  have r: "int (1000 - ts ! k mod 1000) \<le> int (ts ! Suc k) - int (ts ! k)
          \<and> int (ts ! Suc k) - int (ts ! k) < int (1000 - ts ! k mod 1000) + eps
          \<and> int (ts ! k + (1000 - ts ! k mod 1000)) \<le> int (ts ! Suc k)
          \<and> int (ts ! Suc k) < int (ts ! k + (1000 - ts ! k mod 1000)) + eps"
    if "0 \<le> ls ! k" "ls ! k < eps"
    using that g e unfolding next_boundary_def by linarith
  from k e a r show ?thesis by blast
qed

theorem consecutive_firings_gap_witness:
  "Suc 1 < length (0 # firing_times
     [Elapse 1003,
      Timeout 1 \<lparr>getHours = 0, getMinutes = 0, getSeconds = 1, getMilliseconds = 3\<rparr>,
      Elapse 997,
      Timeout 2 \<lparr>getHours = 0, getMinutes = 0, getSeconds = 2, getMilliseconds = 0\<rparr>]
     (mount \<lparr>getHours = 0, getMinutes = 0, getSeconds = 0, getMilliseconds = 0\<rparr>
            \<lparr>getHours = 0, getMinutes = 0, getSeconds = 0, getMilliseconds = 0\<rparr> 0))
   \<and> (0 \<le> (firing_lateness
     [Elapse 1003,
      Timeout 1 \<lparr>getHours = 0, getMinutes = 0, getSeconds = 1, getMilliseconds = 3\<rparr>,
      Elapse 997,
      Timeout 2 \<lparr>getHours = 0, getMinutes = 0, getSeconds = 2, getMilliseconds = 0\<rparr>]
     (mount \<lparr>getHours = 0, getMinutes = 0, getSeconds = 0, getMilliseconds = 0\<rparr>
            \<lparr>getHours = 0, getMinutes = 0, getSeconds = 0, getMilliseconds = 0\<rparr> 0)) ! 1 \<and> (firing_lateness
     [Elapse 1003,
      Timeout 1 \<lparr>getHours = 0, getMinutes = 0, getSeconds = 1, getMilliseconds = 3\<rparr>,
      Elapse 997,
      Timeout 2 \<lparr>getHours = 0, getMinutes = 0, getSeconds = 2, getMilliseconds = 0\<rparr>]
     (mount \<lparr>getHours = 0, getMinutes = 0, getSeconds = 0, getMilliseconds = 0\<rparr>
            \<lparr>getHours = 0, getMinutes = 0, getSeconds = 0, getMilliseconds = 0\<rparr> 0)) ! 1 < 5)
   \<and> int ((0 # firing_times
     [Elapse 1003,
      Timeout 1 \<lparr>getHours = 0, getMinutes = 0, getSeconds = 1, getMilliseconds = 3\<rparr>,
      Elapse 997,
      Timeout 2 \<lparr>getHours = 0, getMinutes = 0, getSeconds = 2, getMilliseconds = 0\<rparr>]
     (mount \<lparr>getHours = 0, getMinutes = 0, getSeconds = 0, getMilliseconds = 0\<rparr>
            \<lparr>getHours = 0, getMinutes = 0, getSeconds = 0, getMilliseconds = 0\<rparr> 0)) ! Suc 1) - int ((0 # firing_times
     [Elapse 1003,
      Timeout 1 \<lparr>getHours = 0, getMinutes = 0, getSeconds = 1, getMilliseconds = 3\<rparr>,
      Elapse 997,
      Timeout 2 \<lparr>getHours = 0, getMinutes = 0, getSeconds = 2, getMilliseconds = 0\<rparr>]
     (mount \<lparr>getHours = 0, getMinutes = 0, getSeconds = 0, getMilliseconds = 0\<rparr>
            \<lparr>getHours = 0, getMinutes = 0, getSeconds = 0, getMilliseconds = 0\<rparr> 0)) ! 1) = 997
   \<and> int (1000 - (0 # firing_times
     [Elapse 1003,
      Timeout 1 \<lparr>getHours = 0, getMinutes = 0, getSeconds = 1, getMilliseconds = 3\<rparr>,
      Elapse 997,
      Timeout 2 \<lparr>getHours = 0, getMinutes = 0, getSeconds = 2, getMilliseconds = 0\<rparr>]
     (mount \<lparr>getHours = 0, getMinutes = 0, getSeconds = 0, getMilliseconds = 0\<rparr>
            \<lparr>getHours = 0, getMinutes = 0, getSeconds = 0, getMilliseconds = 0\<rparr> 0)) ! 1 mod 1000) \<le> int ((0 # firing_times
     [Elapse 1003,
      Timeout 1 \<lparr>getHours = 0, getMinutes = 0, getSeconds = 1, getMilliseconds = 3\<rparr>,
      Elapse 997,
      Timeout 2 \<lparr>getHours = 0, getMinutes = 0, getSeconds = 2, getMilliseconds = 0\<rparr>]
     (mount \<lparr>getHours = 0, getMinutes = 0, getSeconds = 0, getMilliseconds = 0\<rparr>
            \<lparr>getHours = 0, getMinutes = 0, getSeconds = 0, getMilliseconds = 0\<rparr> 0)) ! Suc 1) - int ((0 # firing_times
     [Elapse 1003,
      Timeout 1 \<lparr>getHours = 0, getMinutes = 0, getSeconds = 1, getMilliseconds = 3\<rparr>,
      Elapse 997,
      Timeout 2 \<lparr>getHours = 0, getMinutes = 0, getSeconds = 2, getMilliseconds = 0\<rparr>]
     (mount \<lparr>getHours = 0, getMinutes = 0, getSeconds = 0, getMilliseconds = 0\<rparr>
            \<lparr>getHours = 0, getMinutes = 0, getSeconds = 0, getMilliseconds = 0\<rparr> 0)) ! 1)
   \<and> int ((0 # firing_times
     [Elapse 1003,
      Timeout 1 \<lparr>getHours = 0, getMinutes = 0, getSeconds = 1, getMilliseconds = 3\<rparr>,
      Elapse 997,
      Timeout 2 \<lparr>getHours = 0, getMinutes = 0, getSeconds = 2, getMilliseconds = 0\<rparr>]
     (mount \<lparr>getHours = 0, getMinutes = 0, getSeconds = 0, getMilliseconds = 0\<rparr>
            \<lparr>getHours = 0, getMinutes = 0, getSeconds = 0, getMilliseconds = 0\<rparr> 0)) ! Suc 1) - int ((0 # firing_times
     [Elapse 1003,
      Timeout 1 \<lparr>getHours = 0, getMinutes = 0, getSeconds = 1, getMilliseconds = 3\<rparr>,
      Elapse 997,
      Timeout 2 \<lparr>getHours = 0, getMinutes = 0, getSeconds = 2, getMilliseconds = 0\<rparr>]
     (mount \<lparr>getHours = 0, getMinutes = 0, getSeconds = 0, getMilliseconds = 0\<rparr>
            \<lparr>getHours = 0, getMinutes = 0, getSeconds = 0, getMilliseconds = 0\<rparr> 0)) ! 1) < int (1000 - (0 # firing_times
     [Elapse 1003,
      Timeout 1 \<lparr>getHours = 0, getMinutes = 0, getSeconds = 1, getMilliseconds = 3\<rparr>,
      Elapse 997,
      Timeout 2 \<lparr>getHours = 0, getMinutes = 0, getSeconds = 2, getMilliseconds = 0\<rparr>]
     (mount \<lparr>getHours = 0, getMinutes = 0, getSeconds = 0, getMilliseconds = 0\<rparr>
            \<lparr>getHours = 0, getMinutes = 0, getSeconds = 0, getMilliseconds = 0\<rparr> 0)) ! 1 mod 1000) + 5"
proof -
  have ts: "firing_times
     [Elapse 1003,
      Timeout 1 \<lparr>getHours = 0, getMinutes = 0, getSeconds = 1, getMilliseconds = 3\<rparr>,
      Elapse 997,
      Timeout 2 \<lparr>getHours = 0, getMinutes = 0, getSeconds = 2, getMilliseconds = 0\<rparr>]
     (mount \<lparr>getHours = 0, getMinutes = 0, getSeconds = 0, getMilliseconds = 0\<rparr>
            \<lparr>getHours = 0, getMinutes = 0, getSeconds = 0, getMilliseconds = 0\<rparr> 0) = [1003, 2000]"
    by (simp add: eval_defs)
  have ls: "firing_lateness
     [Elapse 1003,
      Timeout 1 \<lparr>getHours = 0, getMinutes = 0, getSeconds = 1, getMilliseconds = 3\<rparr>,
      Elapse 997,
      Timeout 2 \<lparr>getHours = 0, getMinutes = 0, getSeconds = 2, getMilliseconds = 0\<rparr>]
     (mount \<lparr>getHours = 0, getMinutes = 0, getSeconds = 0, getMilliseconds = 0\<rparr>
            \<lparr>getHours = 0, getMinutes = 0, getSeconds = 0, getMilliseconds = 0\<rparr> 0) = [3, 0]"
    by (simp add: eval_defs)
  have len: "Suc 1 < length (0 # firing_times
     [Elapse 1003,
      Timeout 1 \<lparr>getHours = 0, getMinutes = 0, getSeconds = 1, getMilliseconds = 3\<rparr>,
      Elapse 997,
      Timeout 2 \<lparr>getHours = 0, getMinutes = 0, getSeconds = 2, getMilliseconds = 0\<rparr>]
     (mount \<lparr>getHours = 0, getMinutes = 0, getSeconds = 0, getMilliseconds = 0\<rparr>
            \<lparr>getHours = 0, getMinutes = 0, getSeconds = 0, getMilliseconds = 0\<rparr> 0))"
    unfolding ts by simp
  have l: "0 \<le> (firing_lateness
     [Elapse 1003,
      Timeout 1 \<lparr>getHours = 0, getMinutes = 0, getSeconds = 1, getMilliseconds = 3\<rparr>,
      Elapse 997,
      Timeout 2 \<lparr>getHours = 0, getMinutes = 0, getSeconds = 2, getMilliseconds = 0\<rparr>]
     (mount \<lparr>getHours = 0, getMinutes = 0, getSeconds = 0, getMilliseconds = 0\<rparr>
            \<lparr>getHours = 0, getMinutes = 0, getSeconds = 0, getMilliseconds = 0\<rparr> 0)) ! 1 \<and> (firing_lateness
     [Elapse 1003,
      Timeout 1 \<lparr>getHours = 0, getMinutes = 0, getSeconds = 1, getMilliseconds = 3\<rparr>,
      Elapse 997,
      Timeout 2 \<lparr>getHours = 0, getMinutes = 0, getSeconds = 2, getMilliseconds = 0\<rparr>]
     (mount \<lparr>getHours = 0, getMinutes = 0, getSeconds = 0, getMilliseconds = 0\<rparr>
            \<lparr>getHours = 0, getMinutes = 0, getSeconds = 0, getMilliseconds = 0\<rparr> 0)) ! 1 < 5"
    unfolding ls by simp
  have g: "int ((0 # firing_times
     [Elapse 1003,
      Timeout 1 \<lparr>getHours = 0, getMinutes = 0, getSeconds = 1, getMilliseconds = 3\<rparr>,
      Elapse 997,
      Timeout 2 \<lparr>getHours = 0, getMinutes = 0, getSeconds = 2, getMilliseconds = 0\<rparr>]
     (mount \<lparr>getHours = 0, getMinutes = 0, getSeconds = 0, getMilliseconds = 0\<rparr>
            \<lparr>getHours = 0, getMinutes = 0, getSeconds = 0, getMilliseconds = 0\<rparr> 0)) ! Suc 1) - int ((0 # firing_times
     [Elapse 1003,
      Timeout 1 \<lparr>getHours = 0, getMinutes = 0, getSeconds = 1, getMilliseconds = 3\<rparr>,
      Elapse 997,
      Timeout 2 \<lparr>getHours = 0, getMinutes = 0, getSeconds = 2, getMilliseconds = 0\<rparr>]
     (mount \<lparr>getHours = 0, getMinutes = 0, getSeconds = 0, getMilliseconds = 0\<rparr>
            \<lparr>getHours = 0, getMinutes = 0, getSeconds = 0, getMilliseconds = 0\<rparr> 0)) ! 1) = 997"
    unfolding ts by simp
  note th = consecutive_firings_gap [OF refl refl len, of 5]
  note d = th [THEN conjunct2, THEN conjunct2, THEN conjunct2, THEN mp, OF l]
  show ?thesis
    by (rule conjI [OF len conjI [OF l conjI [OF g conjI [OF d [THEN conjunct1]
          d [THEN conjunct2, THEN conjunct1]]]]])
qed

text \<open>
  Claim C5 as stated asks for at least 1000 milliseconds between two consecutive
  firings. A firing that the scheduler delivers 3 milliseconds after the boundary arms
  a delay of 997; delivered with no lateness, the next firing comes 997 milliseconds
  later.
\<close>

theorem short_gap_between_firings:
  "firing_times
     [Elapse 1003,
      Timeout 1 \<lparr>getHours = 0, getMinutes = 0, getSeconds = 1, getMilliseconds = 3\<rparr>,
      Elapse 997,
      Timeout 2 \<lparr>getHours = 0, getMinutes = 0, getSeconds = 2, getMilliseconds = 0\<rparr>]
     (mount \<lparr>getHours = 0, getMinutes = 0, getSeconds = 0, getMilliseconds = 0\<rparr>
            \<lparr>getHours = 0, getMinutes = 0, getSeconds = 0, getMilliseconds = 0\<rparr> 0)
     = [1003, 2000]
   \<and> (2000::nat) - 1003 < 1000"
  by (simp add: eval_defs)

text \<open>
  Claim C6. Whatever happened between mounting and unmounting, the unmount cleanup
  leaves no timer pending, the ticker fires in no continuation of the run, and the
  state cell keeps the value it had when the view was unmounted.
\<close>

theorem no_write_after_unmount:
  "timeouts (run (es1 @ [Unmount]) (mount d0 d1 t0)) = []
   \<and> firing_times es2 (run (es1 @ [Unmount]) (mount d0 d1 t0)) = []
   \<and> now (run (es1 @ Unmount # es2) (mount d0 d1 t0)) = now (run es1 (mount d0 d1 t0))"
proof -
  from ticker_inv_run [OF ticker_inv_mount] obtain p
    where p: "ticker_inv p (run es1 (mount d0 d1 t0))" by blast
  have u: "timeouts (run (es1 @ [Unmount]) (mount d0 d1 t0)) = []"
    using unmount_clears [OF p] by (simp add: run_append del: step.simps)
  note i = idle_run [OF u, of es2]
  have "run (es1 @ Unmount # es2) (mount d0 d1 t0)
          = run es2 (run (es1 @ [Unmount]) (mount d0 d1 t0))"
    by (simp add: run_append del: step.simps)
  moreover have "now (run (es1 @ [Unmount]) (mount d0 d1 t0)) = now (run es1 (mount d0 d1 t0))"
    by (simp add: run_append unmount_fields del: step.simps)
  ultimately show ?thesis using u i by simp
qed

text \<open>
  Claim C9. An iteration of the frame refresher's loop leaves the state cell as it is:
  it changes nothing but the frame ref, the pending frame requests and the frame handle
  counter, and while the flag is set it requests exactly one new frame for itself. An
  animation-frame event never changes the state cell, and a step that changes it is a
  firing of the ticker.
\<close>

theorem refresher_leaves_state:
  "now (loop s) = now s
   \<and> loop s = s\<lparr>rafRef := rafRef (loop s), frames := frames (loop s),
                nextFrameId := nextFrameId (loop s)\<rparr>
   \<and> (running s \<longrightarrow> frames (loop s) = frames s @ [nextFrameId s]
                     \<and> rafRef (loop s) = Some (nextFrameId s))
   \<and> now (step (AnimationFrame h) s) = now s
   \<and> (now (step e s) \<noteq> now s \<longrightarrow> ticker_fires e s)"
proof -
  have 1: "now (loop s) = now s" by (rule loop_fields)
  have 2: "loop s = s\<lparr>rafRef := rafRef (loop s), frames := frames (loop s),
                nextFrameId := nextFrameId (loop s)\<rparr>"
    by (simp add: loop_def requestAnimationFrame_def Let_def)
  have 3: "running s \<longrightarrow> frames (loop s) = frames s @ [nextFrameId s]
                     \<and> rafRef (loop s) = Some (nextFrameId s)"
    by (simp add: loop_def requestAnimationFrame_def Let_def)
  have 4: "now (step (AnimationFrame h) s) = now s" by (rule frame_fields)
  have 5: "now (step e s) \<noteq> now s \<longrightarrow> ticker_fires e s"
    by (cases e) (auto simp add: frame_fields unmount_fields simp del: step.simps(3,4))
  from 1 2 3 4 5 show ?thesis by blast
qed

theorem refresher_leaves_state_witness:
  "running (mount \<lparr>getHours = 0, getMinutes = 0, getSeconds = 0, getMilliseconds = 0\<rparr>
                  \<lparr>getHours = 0, getMinutes = 0, getSeconds = 0, getMilliseconds = 0\<rparr> 0)
   \<and> frames (loop (mount \<lparr>getHours = 0, getMinutes = 0, getSeconds = 0, getMilliseconds = 0\<rparr>
                  \<lparr>getHours = 0, getMinutes = 0, getSeconds = 0, getMilliseconds = 0\<rparr> 0)) = [1, 2]
   \<and> now (step (Timeout 1 \<lparr>getHours = 0, getMinutes = 0, getSeconds = 1, getMilliseconds = 0\<rparr>)
        (step (Elapse 1000)
          (mount \<lparr>getHours = 0, getMinutes = 0, getSeconds = 0, getMilliseconds = 0\<rparr>
                 \<lparr>getHours = 0, getMinutes = 0, getSeconds = 0, getMilliseconds = 0\<rparr> 0)))
       \<noteq> now (step (Elapse 1000)
          (mount \<lparr>getHours = 0, getMinutes = 0, getSeconds = 0, getMilliseconds = 0\<rparr>
                 \<lparr>getHours = 0, getMinutes = 0, getSeconds = 0, getMilliseconds = 0\<rparr> 0))
   \<and> ticker_fires (Timeout 1 \<lparr>getHours = 0, getMinutes = 0, getSeconds = 1, getMilliseconds = 0\<rparr>)
        (step (Elapse 1000)
          (mount \<lparr>getHours = 0, getMinutes = 0, getSeconds = 0, getMilliseconds = 0\<rparr>
                 \<lparr>getHours = 0, getMinutes = 0, getSeconds = 0, getMilliseconds = 0\<rparr> 0))"
proof -
  have r: "running (mount \<lparr>getHours = 0, getMinutes = 0, getSeconds = 0, getMilliseconds = 0\<rparr>
                  \<lparr>getHours = 0, getMinutes = 0, getSeconds = 0, getMilliseconds = 0\<rparr> 0)"
    by (simp add: eval_defs)
  have n: "now (step (Timeout 1 \<lparr>getHours = 0, getMinutes = 0, getSeconds = 1, getMilliseconds = 0\<rparr>)
        (step (Elapse 1000)
          (mount \<lparr>getHours = 0, getMinutes = 0, getSeconds = 0, getMilliseconds = 0\<rparr>
                 \<lparr>getHours = 0, getMinutes = 0, getSeconds = 0, getMilliseconds = 0\<rparr> 0)))
       \<noteq> now (step (Elapse 1000)
          (mount \<lparr>getHours = 0, getMinutes = 0, getSeconds = 0, getMilliseconds = 0\<rparr>
                 \<lparr>getHours = 0, getMinutes = 0, getSeconds = 0, getMilliseconds = 0\<rparr> 0))"
    by (simp add: eval_defs)
  have m: "frames (mount \<lparr>getHours = 0, getMinutes = 0, getSeconds = 0, getMilliseconds = 0\<rparr>
                  \<lparr>getHours = 0, getMinutes = 0, getSeconds = 0, getMilliseconds = 0\<rparr> 0) = [1]"
    "nextFrameId (mount \<lparr>getHours = 0, getMinutes = 0, getSeconds = 0, getMilliseconds = 0\<rparr>
                  \<lparr>getHours = 0, getMinutes = 0, getSeconds = 0, getMilliseconds = 0\<rparr> 0) = 2"
    by (simp_all add: eval_defs)
  show ?thesis
    using r n m
      refresher_leaves_state
        [of "mount \<lparr>getHours = 0, getMinutes = 0, getSeconds = 0, getMilliseconds = 0\<rparr>
                   \<lparr>getHours = 0, getMinutes = 0, getSeconds = 0, getMilliseconds = 0\<rparr> 0"]
      refresher_leaves_state
        [of "step (Elapse 1000)
              (mount \<lparr>getHours = 0, getMinutes = 0, getSeconds = 0, getMilliseconds = 0\<rparr>
                     \<lparr>getHours = 0, getMinutes = 0, getSeconds = 0, getMilliseconds = 0\<rparr> 0)"
            _ "Timeout 1 \<lparr>getHours = 0, getMinutes = 0, getSeconds = 1, getMilliseconds = 0\<rparr>"]
    by (simp del: step.simps)
qed

end
